theory Spec2Isabelle
  imports Main "HOL-Library.AList" "HOL-Library.Sublist"
begin

section \<open>Python values used by \<open>pubmed_utils.py\<close>\<close>

text \<open>
  A Python \<open>str\<close> is modelled as a \<open>string\<close> whose characters are the code points 0
  to 255, \<open>of_char\<close> giving the code point. The character classes below (\<open>str.isspace\<close>,
  which \<open>str.strip\<close> uses, and the class \<open>\w\<close> of a \<open>str\<close> pattern) are Python's classes
  on these code points, the ones above 127 included. A code point above 255 cannot be
  written in this type.
  Console output (\<open>print\<close>, the \<open>debug\<close> flag) is not modelled: it changes no
  returned value and no raised exception.
\<close>

datatype exn =
    RequestException string
  | ValueError string
  | RuntimeError string
  | TypeError
  | KeyError string

definition isspace :: "char \<Rightarrow> bool" where
  "isspace c = (let n = (of_char c :: nat) in
     (9 \<le> n \<and> n \<le> 13) \<or> (28 \<le> n \<and> n \<le> 32) \<or> n = 133 \<or> n = 160)"

definition strip :: "string \<Rightarrow> string" where
  "strip s = rev (dropWhile isspace (rev (dropWhile isspace s)))"

text \<open>\<open>k in s\<close> on two strings: \<open>k\<close> occurs in \<open>s\<close> as a contiguous substring.\<close>

fun py_in :: "string \<Rightarrow> string \<Rightarrow> bool" where
  "py_in k [] = (k = [])"
| "py_in k (c # cs) = (prefix k (c # cs) \<or> py_in k cs)"

text \<open>\<open>sep.join(xs)\<close>.\<close>

fun join :: "string \<Rightarrow> string list \<Rightarrow> string" where
  "join sep [] = []"
| "join sep [x] = x"
| "join sep (x # y # ys) = x @ sep @ join sep (y # ys)"

text \<open>\<open>x or d\<close> for an optional string \<open>x\<close>: \<open>None\<close> and \<open>""\<close> are falsy.\<close>

definition py_or :: "string option \<Rightarrow> string \<Rightarrow> string" where
  "py_or x d = (case x of None \<Rightarrow> d | Some s \<Rightarrow> if s = [] then d else s)"

subsection \<open>The regular expression \<open>[\w.-]+@[\w.-]+\<close>\<close>

text \<open>
  \<open>\w\<close>: the underscore and the alphanumeric code points. Below 128 these are the ASCII
  letters and digits; from 128 to 255 they are the letters (170, 181, 186, 192 to 214,
  216 to 246, 248 to 255), the superscript digits (178, 179, 185) and the fractions
  (188 to 190).
\<close>

definition is_word :: "char \<Rightarrow> bool" where
  "is_word c = (let n = (of_char c :: nat) in
     (48 \<le> n \<and> n \<le> 57) \<or> (65 \<le> n \<and> n \<le> 90) \<or> n = 95 \<or> (97 \<le> n \<and> n \<le> 122)
     \<or> n = 170 \<or> n = 178 \<or> n = 179 \<or> n = 181 \<or> n = 185 \<or> n = 186
     \<or> (188 \<le> n \<and> n \<le> 190) \<or> (192 \<le> n \<and> n \<le> 214) \<or> (216 \<le> n \<and> n \<le> 246)
     \<or> 248 \<le> n)"

definition email_char :: "char \<Rightarrow> bool" where
  "email_char c = (is_word c \<or> c = CHR ''.'' \<or> c = CHR ''-'')"

text \<open>
  A match anchored at the start of \<open>s\<close>. \<open>@\<close> is not in the class, so the greedy
  first \<open>+\<close> can only succeed on the longest run of class characters, and the greedy
  second \<open>+\<close> takes the longest run after the \<open>@\<close>.
\<close>

definition match_here :: "string \<Rightarrow> string option" where
  "match_here s =
     (let local = takeWhile email_char s in
      if local = [] then None
      else case dropWhile email_char s of
             [] \<Rightarrow> None
           | c # rest \<Rightarrow>
               if c \<noteq> CHR ''@'' then None
               else let domain = takeWhile email_char rest in
                    if domain = [] then None else Some (local @ ''@'' @ domain))"

text \<open>\<open>re.search\<close>: the match at the leftmost position that has one; \<open>group(0)\<close> of it.\<close>

fun re_search :: "string \<Rightarrow> string option" where
  "re_search [] = None"
| "re_search (c # cs) =
     (case match_here (c # cs) of Some m \<Rightarrow> Some m | None \<Rightarrow> re_search cs)"

section \<open>ElementTree documents\<close>

text \<open>
  An element has a tag, a text (\<open>None\<close> when it has none) and children in document
  order. Attributes and tails are never read by the program.
\<close>

datatype element = Element (elem_tag: string) (elem_text: "string option") (elem_children: "element list")

text \<open>\<open>elem.iter()\<close>: the element and everything below it, in document order.\<close>

fun iter :: "element \<Rightarrow> element list" where
  "iter (Element t x cs) = Element t x cs # concat (map iter cs)"

text \<open>
  The paths the program uses: \<open>"T"\<close> is \<open>[Child T]\<close>, \<open>".//T"\<close> is \<open>[Descendant T]\<close>
  and \<open>".//T/U"\<close> is \<open>[Descendant T, Child U]\<close>. A descendant step yields the elements
  of \<open>elem.iter(T)\<close> other than \<open>elem\<close> itself.
\<close>

datatype step = Child string | Descendant string

fun select :: "step \<Rightarrow> element list \<Rightarrow> element list" where
  "select (Child t) result =
     concat (map (\<lambda>elem. filter (\<lambda>e. elem_tag e = t) (elem_children elem)) result)"
| "select (Descendant t) result =
     concat (map (\<lambda>elem. filter (\<lambda>e. elem_tag e = t) (concat (map iter (elem_children elem)))) result)"

definition findall :: "element \<Rightarrow> step list \<Rightarrow> element list" where
  "findall elem path = foldl (\<lambda>result s. select s result) [elem] path"

text \<open>\<open>findtext(path)\<close> with the default \<open>None\<close>, and \<open>findtext(path, default)\<close>.\<close>

definition findtext_opt :: "element \<Rightarrow> step list \<Rightarrow> string option" where
  "findtext_opt elem path =
     (case findall elem path of
        [] \<Rightarrow> None
      | e # _ \<Rightarrow> Some (case elem_text e of None \<Rightarrow> [] | Some t \<Rightarrow> t))"

definition findtext :: "element \<Rightarrow> step list \<Rightarrow> string \<Rightarrow> string" where
  "findtext elem path dflt = (case findtext_opt elem path of None \<Rightarrow> dflt | Some t \<Rightarrow> t)"

section \<open>\<open>filter_non_academic_authors\<close>\<close>

record non_academic_author =
  name :: string
  company :: string

definition company_keywords :: "string list" where
  "company_keywords =
     [''Inc'', ''Ltd'', ''Corp'', ''Corporation'', ''Pharma'', ''Biotech'',
      ''Biopharma'', ''HealthTech'', ''Lab'', ''Research Institute'',
      ''Company'', ''Therapeutics'', ''Healthcare'']"

definition filter_step :: "non_academic_author list \<Rightarrow> string \<times> string \<Rightarrow> non_academic_author list" where
  "filter_step filtered_authors p =
     (case p of (nm, affiliation) \<Rightarrow>
        if list_ex (\<lambda>keyword. py_in keyword affiliation) company_keywords
        then filtered_authors @ [\<lparr>name = nm, company = affiliation\<rparr>]
        else filtered_authors)"

definition filter_non_academic_authors :: "string list \<Rightarrow> string list \<Rightarrow> non_academic_author list" where
  "filter_non_academic_authors authors affiliations =
     foldl filter_step [] (zip authors affiliations)"

section \<open>\<open>parse_paper_details\<close>\<close>

text \<open>A row is a Python dict from column names to strings, kept in insertion order.\<close>

type_synonym paper = "(string \<times> string) list"

text \<open>The body of the loop over the authors of one article.\<close>

definition author_name :: "element \<Rightarrow> string" where
  "author_name author =
     findtext author [Child ''LastName''] '''' @ '', '' @ findtext author [Child ''ForeName''] ''''"

definition author_affiliation :: "element \<Rightarrow> string" where
  "author_affiliation author = findtext author [Descendant ''Affiliation''] ''''"

definition author_step :: "paper \<times> string list \<times> string list \<Rightarrow> element \<Rightarrow> paper \<times> string list \<times> string list" where
  "author_step st author =
     (case st of (paper, authors, affiliations) \<Rightarrow>
        let nm = author_name author;
            affiliation = author_affiliation author;
            paper' = (case re_search affiliation of
                        None \<Rightarrow> paper
                      | Some email \<Rightarrow> AList.update ''Corresponding Author Email'' email paper)
        in (paper', authors @ [nm], affiliations @ [affiliation]))"

text \<open>The body of the loop over the articles: the row of one \<open>PubmedArticle\<close> element.\<close>

definition parse_article :: "element \<Rightarrow> paper" where
  "parse_article article =
     (let paper0 =
            [(''PubmedID'', py_or (findtext_opt article [Descendant ''PMID'']) ''Unknown''),
             (''Title'', py_or (findtext_opt article [Descendant ''ArticleTitle'']) ''Unknown''),
             (''Publication Date'', ''''),
             (''Non-academic Author(s)'', ''None''),
             (''Company Affiliation(s)'', ''None''),
             (''Corresponding Author Email'', ''None'')];
          day = findtext article [Descendant ''PubDate'', Child ''Day''] '''';
          month = findtext article [Descendant ''PubDate'', Child ''Month''] '''';
          year = findtext article [Descendant ''PubDate'', Child ''Year''] '''';
          paper1 =
            (if day \<noteq> [] \<and> month \<noteq> [] \<and> year \<noteq> []
             then AList.update ''Publication Date'' (year @ ''/'' @ month @ ''/'' @ day) paper0
             else if year \<noteq> [] then AList.update ''Publication Date'' year paper0
             else paper0)
      in case foldl author_step (paper1, [], []) (findall article [Descendant ''Author'']) of
           (paper2, authors, affiliations) \<Rightarrow>
             let non_academic_authors = filter_non_academic_authors authors affiliations in
             if non_academic_authors \<noteq> []
             then AList.update ''Company Affiliation(s)'' (join ''; '' (map company non_academic_authors))
                    (AList.update ''Non-academic Author(s)'' (join ''; '' (map name non_academic_authors)) paper2)
             else paper2)"

text \<open>
  \<open>ET.fromstring\<close> is the XML parser of the standard library; it is a parameter here:
  \<open>Inl msg\<close> is \<open>ET.ParseError\<close> with its message, \<open>Inr root\<close> the root element.
\<close>

type_synonym xml_parser = "string \<Rightarrow> string + element"

definition parse_paper_details :: "xml_parser \<Rightarrow> string \<Rightarrow> exn + paper list" where
  "parse_paper_details fromstring xml_data =
     (case fromstring xml_data of
        Inl e \<Rightarrow> Inl (ValueError (''Failed to parse XML data: '' @ e))
      | Inr root \<Rightarrow>
          Inr (foldl (\<lambda>papers article. papers @ [parse_article article]) []
                 (findall root [Descendant ''PubmedArticle''])))"

section \<open>The HTTP collaborator\<close>

text \<open>
  \<open>requests.get\<close> either raises or returns a response. A response carries what the
  program reads from it: the status, the reason and URL that \<open>raise_for_status\<close> puts in
  its message, the body (\<open>response.text\<close>) and what \<open>response.json()\<close> does: \<open>Inr data\<close>
  when the body decodes to \<open>data\<close>, and \<open>Inl msg\<close> when it does not decode, where
  \<open>response.json()\<close> raises \<open>requests.exceptions.JSONDecodeError\<close> with the message \<open>msg\<close>;
  that exception is a \<open>RequestException\<close> (requests 2.27 and later).
\<close>

datatype json =
    JNull
  | JBool bool
  | JNumber int
  | JString string
  | JArray "json list"
  | JObject "(string \<times> json) list"

record response =
  status_code :: nat
  reason :: string
  url :: string
  response_text :: string
  response_json :: "string + json"

datatype outcome = Raises exn | Returns response

text \<open>
  The network answers the \<open>n\<close>-th call of a run (counted from 0) for a URL and its query
  parameters. The functions below take the number of calls made so far and return it
  updated, so the number of calls a function made is read off its result.
\<close>

type_synonym network = "nat \<Rightarrow> string \<Rightarrow> (string \<times> string) list \<Rightarrow> outcome"

function str_nat :: "nat \<Rightarrow> string" where
  "str_nat n =
     (if n < 10 then [char_of (48 + n)]
      else str_nat (n div 10) @ [char_of (48 + n mod 10)])"
  by pat_completeness auto
termination
  by (relation "measure id") auto

declare str_nat.simps [simp del]

text \<open>
  \<open>response.raise_for_status()\<close>: an \<open>HTTPError\<close>, which is a \<open>RequestException\<close>, for a
  status from 400 to 599 and nothing for any other status.
\<close>

definition raise_for_status :: "response \<Rightarrow> exn option" where
  "raise_for_status r =
     (if 400 \<le> status_code r \<and> status_code r < 500
      then Some (RequestException
             (str_nat (status_code r) @ '' Client Error: '' @ reason r @ '' for url: '' @ url r))
      else if 500 \<le> status_code r \<and> status_code r < 600
      then Some (RequestException
             (str_nat (status_code r) @ '' Server Error: '' @ reason r @ '' for url: '' @ url r))
      else None)"

text \<open>\<open>key in data\<close> and \<open>data[key]\<close> for a string key and a decoded JSON value.\<close>

definition contains :: "string \<Rightarrow> json \<Rightarrow> exn + bool" where
  "contains key data =
     (case data of
        JObject kvs \<Rightarrow> Inr (key \<in> set (map fst kvs))
      | JArray xs \<Rightarrow> Inr (JString key \<in> set xs)
      | JString s \<Rightarrow> Inr (py_in key s)
      | _ \<Rightarrow> Inl TypeError)"

definition getitem :: "json \<Rightarrow> string \<Rightarrow> exn + json" where
  "getitem data key =
     (case data of
        JObject kvs \<Rightarrow> (case map_of kvs key of None \<Rightarrow> Inl (KeyError key) | Some v \<Rightarrow> Inr v)
      | _ \<Rightarrow> Inl TypeError)"

definition bind_exn :: "exn + 'a \<Rightarrow> ('a \<Rightarrow> exn + 'b) \<Rightarrow> exn + 'b" where
  "bind_exn x f = (case x of Inl e \<Rightarrow> Inl e | Inr v \<Rightarrow> f v)"

section \<open>\<open>fetch_pubmed_ids\<close>\<close>

definition PUBMED_BASE_URL :: string where
  "PUBMED_BASE_URL = ''https://eutils.ncbi.nlm.nih.gov/entrez/eutils/esearch.fcgi''"

definition PUBMED_FETCH_URL :: string where
  "PUBMED_FETCH_URL = ''https://eutils.ncbi.nlm.nih.gov/entrez/eutils/efetch.fcgi''"

definition ids_params :: "string \<Rightarrow> (string \<times> string) list" where
  "ids_params query =
     [(''db'', ''pubmed''), (''term'', query), (''retmode'', ''json''), (''retmax'', ''100'')]"

text \<open>
  The condition \<open>"esearchresult" not in data or "idlist" not in data["esearchresult"]\<close>,
  evaluated left to right.
\<close>

definition invalid_structure :: "json \<Rightarrow> exn + bool" where
  "invalid_structure data =
     bind_exn (contains ''esearchresult'' data) (\<lambda>present.
       if \<not> present then Inr True
       else bind_exn (getitem data ''esearchresult'') (\<lambda>result.
              bind_exn (contains ''idlist'' result) (\<lambda>has_ids. Inr (\<not> has_ids))))"

text \<open>The body of the \<open>try\<close> of one attempt; it makes one call.\<close>

definition ids_attempt :: "network \<Rightarrow> string \<Rightarrow> nat \<Rightarrow> exn + json" where
  "ids_attempt net query calls =
     (case net calls PUBMED_BASE_URL (ids_params query) of
        Raises e \<Rightarrow> Inl e
      | Returns resp \<Rightarrow>
          (case raise_for_status resp of
             Some e \<Rightarrow> Inl e
           | None \<Rightarrow>
               (case response_json resp of
                  Inl msg \<Rightarrow> Inl (RequestException msg)
                | Inr data \<Rightarrow>
                    bind_exn (invalid_structure data) (\<lambda>invalid.
                      if invalid then Inl (ValueError ''Invalid response structure from PubMed API.'')
                      else bind_exn (getitem data ''esearchresult'') (\<lambda>result.
                             getitem result ''idlist'')))))"

text \<open>
  The loop \<open>for attempt in range(3)\<close>. A result \<open>Inr None\<close> is the \<open>None\<close> a Python
  function returns when its body ends without \<open>return\<close>.
\<close>

fun fetch_ids_loop :: "network \<Rightarrow> string \<Rightarrow> nat list \<Rightarrow> nat \<Rightarrow> (exn + json option) \<times> nat" where
  "fetch_ids_loop net query [] calls = (Inr None, calls)"
| "fetch_ids_loop net query (attempt # rest) calls =
     (case ids_attempt net query calls of
        Inr ids \<Rightarrow> (Inr (Some ids), Suc calls)
      | Inl (RequestException e) \<Rightarrow>
          if attempt < 2 then fetch_ids_loop net query rest (Suc calls)
          else (Inl (RuntimeError (''Failed to fetch PubMed IDs after 3 attempts: '' @ e)), Suc calls)
      | Inl e \<Rightarrow> (Inl e, Suc calls))"

definition fetch_pubmed_ids :: "network \<Rightarrow> string \<Rightarrow> nat \<Rightarrow> (exn + json option) \<times> nat" where
  "fetch_pubmed_ids net query calls =
     (if strip query = [] then (Inl (ValueError ''Query cannot be empty or whitespace.''), calls)
      else fetch_ids_loop net query [0, 1, 2] calls)"

section \<open>\<open>fetch_paper_details\<close>\<close>

definition details_params :: "string list \<Rightarrow> (string \<times> string) list" where
  "details_params pubmed_ids =
     [(''db'', ''pubmed''), (''id'', join '','' pubmed_ids), (''retmode'', ''xml'')]"

definition details_attempt :: "network \<Rightarrow> xml_parser \<Rightarrow> string list \<Rightarrow> nat \<Rightarrow> exn + paper list" where
  "details_attempt net fromstring pubmed_ids calls =
     (case net calls PUBMED_FETCH_URL (details_params pubmed_ids) of
        Raises e \<Rightarrow> Inl e
      | Returns resp \<Rightarrow>
          (case raise_for_status resp of
             Some e \<Rightarrow> Inl e
           | None \<Rightarrow> parse_paper_details fromstring (response_text resp)))"

fun fetch_details_loop ::
  "network \<Rightarrow> xml_parser \<Rightarrow> string list \<Rightarrow> nat list \<Rightarrow> nat \<Rightarrow> (exn + paper list option) \<times> nat" where
  "fetch_details_loop net fromstring pubmed_ids [] calls = (Inr None, calls)"
| "fetch_details_loop net fromstring pubmed_ids (attempt # rest) calls =
     (case details_attempt net fromstring pubmed_ids calls of
        Inr papers \<Rightarrow> (Inr (Some papers), Suc calls)
      | Inl (RequestException e) \<Rightarrow>
          if attempt < 2 then fetch_details_loop net fromstring pubmed_ids rest (Suc calls)
          else (Inl (RuntimeError (''Failed to fetch paper details after 3 attempts: '' @ e)), Suc calls)
      | Inl e \<Rightarrow> (Inl e, Suc calls))"

definition fetch_paper_details ::
  "network \<Rightarrow> xml_parser \<Rightarrow> string list \<Rightarrow> nat \<Rightarrow> (exn + paper list option) \<times> nat" where
  "fetch_paper_details net fromstring pubmed_ids calls =
     (if pubmed_ids = [] then (Inr (Some []), calls)
      else fetch_details_loop net fromstring pubmed_ids [0, 1, 2] calls)"

section \<open>\<open>save_to_csv\<close>\<close>

text \<open>
  The file written is modelled as its rows of cells, the header first; the quoting of a
  cell by the \<open>csv\<close> module and the failures of the file system are not modelled.
  \<open>DictWriter\<close> is used with its defaults: a key of a row that is not a field name raises
  \<open>ValueError\<close> (the message lists the keys in an order Python leaves open; here they
  are listed in the row's order), and a missing key yields the empty string.
\<close>

definition fieldnames :: "string list" where
  "fieldnames =
     [''PubmedID'', ''Title'', ''Publication Date'', ''Non-academic Author(s)'',
      ''Company Affiliation(s)'', ''Corresponding Author Email'']"

definition repr :: "string \<Rightarrow> string" where
  "repr s = [CHR 0x27] @ s @ [CHR 0x27]"

definition dict_to_list :: "string list \<Rightarrow> paper \<Rightarrow> exn + string list" where
  "dict_to_list fns rowdict =
     (let wrong_fields = filter (\<lambda>k. k \<notin> set fns) (map fst rowdict) in
      if wrong_fields \<noteq> []
      then Inl (ValueError (''dict contains fields not in fieldnames: '' @ join '', '' (map repr wrong_fields)))
      else Inr (map (\<lambda>key. case map_of rowdict key of None \<Rightarrow> [] | Some v \<Rightarrow> v) fns))"

text \<open>\<open>writerows\<close>: the rows written so far are kept when a row raises.\<close>

fun writerows :: "string list \<Rightarrow> paper list \<Rightarrow> string list list \<Rightarrow> exn option \<times> string list list" where
  "writerows fns [] written = (None, written)"
| "writerows fns (rowdict # rest) written =
     (case dict_to_list fns rowdict of
        Inl e \<Rightarrow> (Some e, written)
      | Inr cells \<Rightarrow> writerows fns rest (written @ [cells]))"

text \<open>The files are a map from file names to their rows; mode \<open>"w"\<close> replaces the file.\<close>

definition save_to_csv ::
  "string \<Rightarrow> paper list \<Rightarrow> (string \<rightharpoonup> string list list) \<Rightarrow> exn option \<times> (string \<rightharpoonup> string list list)" where
  "save_to_csv filename papers files =
     (case writerows fieldnames papers [fieldnames] of
        (raised, rows) \<Rightarrow> (raised, files(filename \<mapsto> rows)))"

section \<open>Notions used in the statements\<close>

text \<open>The record elements of a document: every \<open>PubmedArticle\<close> element, the root included.\<close>

definition record_elements :: "element \<Rightarrow> element list" where
  "record_elements root = filter (\<lambda>e. elem_tag e = ''PubmedArticle'') (iter root)"

text \<open>An affiliation that contains one of the keywords as a contiguous substring.\<close>

definition non_academic :: "string \<Rightarrow> bool" where
  "non_academic affiliation = (\<exists>k \<in> set company_keywords. sublist k affiliation)"

text \<open>
  A transport failure: the call raises a \<open>RequestException\<close>, or it returns a status from
  400 to 599. Its cause is the text of the exception.
\<close>

definition transport_failure :: "outcome \<Rightarrow> bool" where
  "transport_failure out =
     (case out of
        Raises (RequestException e) \<Rightarrow> True
      | Raises _ \<Rightarrow> False
      | Returns resp \<Rightarrow> 400 \<le> status_code resp \<and> status_code resp < 600)"

definition failure_cause :: "outcome \<Rightarrow> string" where
  "failure_cause out =
     (case out of
        Raises (RequestException e) \<Rightarrow> e
      | Raises _ \<Rightarrow> []
      | Returns resp \<Rightarrow>
          str_nat (status_code resp)
          @ (if status_code resp < 500 then '' Client Error: '' else '' Server Error: '')
          @ reason resp @ '' for url: '' @ url resp)"

text \<open>
  A failure of a lookup attempt: a transport failure, or a response that passes the status
  check with a body that does not decode as JSON. Its cause is the text of the exception.
\<close>

definition lookup_failure :: "outcome \<Rightarrow> bool" where
  "lookup_failure out =
     (case out of
        Raises (RequestException e) \<Rightarrow> True
      | Raises _ \<Rightarrow> False
      | Returns resp \<Rightarrow>
          (400 \<le> status_code resp \<and> status_code resp < 600)
          \<or> (case response_json resp of Inl msg \<Rightarrow> True | Inr data \<Rightarrow> False))"

definition lookup_cause :: "outcome \<Rightarrow> string" where
  "lookup_cause out =
     (case out of
        Raises _ \<Rightarrow> failure_cause out
      | Returns resp \<Rightarrow>
          if 400 \<le> status_code resp \<and> status_code resp < 600 then failure_cause out
          else (case response_json resp of Inl msg \<Rightarrow> msg | Inr data \<Rightarrow> []))"




text \<open>How a \<open>try\<close> body's result leaves the function when it is not caught.\<close>

definition returned :: "exn + 'a \<Rightarrow> exn + 'a option" where
  "returned r = (case r of Inl e \<Rightarrow> Inl e | Inr v \<Rightarrow> Inr (Some v))"

text \<open>What one author's affiliation does to the row, and the row before the author loop.\<close>

definition email_step :: "paper \<Rightarrow> string \<Rightarrow> paper" where
  "email_step paper affiliation =
     (case re_search affiliation of
        None \<Rightarrow> paper
      | Some email \<Rightarrow> AList.update ''Corresponding Author Email'' email paper)"

definition date_paper :: "element \<Rightarrow> paper" where
  "date_paper article =
     (let paper0 =
            [(''PubmedID'', py_or (findtext_opt article [Descendant ''PMID'']) ''Unknown''),
             (''Title'', py_or (findtext_opt article [Descendant ''ArticleTitle'']) ''Unknown''),
             (''Publication Date'', ''''),
             (''Non-academic Author(s)'', ''None''),
             (''Company Affiliation(s)'', ''None''),
             (''Corresponding Author Email'', ''None'')];
          day = findtext article [Descendant ''PubDate'', Child ''Day''] '''';
          month = findtext article [Descendant ''PubDate'', Child ''Month''] '''';
          year = findtext article [Descendant ''PubDate'', Child ''Year''] ''''
      in if day \<noteq> [] \<and> month \<noteq> [] \<and> year \<noteq> []
         then AList.update ''Publication Date'' (year @ ''/'' @ month @ ''/'' @ day) paper0
         else if year \<noteq> [] then AList.update ''Publication Date'' year paper0
         else paper0)"

section \<open>Sample inputs\<close>

definition sample_author :: "string \<Rightarrow> string \<Rightarrow> string \<Rightarrow> element" where
  "sample_author last_name fore_name affiliation =
     Element ''Author'' None
       [Element ''LastName'' (Some last_name) [],
        Element ''ForeName'' (Some fore_name) [],
        Element ''AffiliationInfo'' None [Element ''Affiliation'' (Some affiliation) []]]"

text \<open>A record with a year and a month and no day, and no author.\<close>

definition article_year_month :: element where
  "article_year_month =
     Element ''PubmedArticle'' None
       [Element ''PMID'' (Some ''1'') [],
        Element ''PubDate'' None
          [Element ''Year'' (Some ''2020'') [], Element ''Month'' (Some ''May'') []]]"

text \<open>A record with a full date and three authors, two of them with an email.\<close>

definition article_full :: element where
  "article_full =
     Element ''PubmedArticle'' None
       [Element ''MedlineCitation'' None
          [Element ''PMID'' (Some ''2'') [],
           Element ''Article'' None
             [Element ''Journal'' None
                [Element ''PubDate'' None
                   [Element ''Year'' (Some ''2021'') [],
                    Element ''Month'' (Some ''Jan'') [],
                    Element ''Day'' (Some ''15'') []]],
              Element ''ArticleTitle'' (Some ''A study'') [],
              Element ''AuthorList'' None
                [sample_author ''Doe'' ''Jane'' ''Acme Pharma Inc, Boston, jane.doe@acme.com'',
                 sample_author ''Roe'' ''Rick'' ''Dept. of Biology, Stanford University, rick@stanford.edu'',
                 sample_author ''Minos'' ''King'' ''The Labyrinth, Knossos'']]]]"

text \<open>
  A record with two authors, each with an email; the second one starts with the letter
  of code point 233 (e with acute accent).
\<close>

definition article_two_emails :: element where
  "article_two_emails =
     Element ''PubmedArticle'' None
       [sample_author ''A'' ''B'' ''Univ, a@b.com'',
        sample_author ''C'' ''D'' (''Univ, '' @ CHR 0xE9 # ''@x.org'')]"

definition xml_two_records :: string where
  "xml_two_records =
     ''<PubmedArticleSet><PubmedArticle><PMID>1</PMID></PubmedArticle><PubmedArticle><PMID>2</PMID></PubmedArticle></PubmedArticleSet>''"

definition two_records :: element where
  "two_records =
     Element ''PubmedArticleSet'' None
       [Element ''PubmedArticle'' None [Element ''PMID'' (Some ''1'') []],
        Element ''PubmedArticle'' None [Element ''PMID'' (Some ''2'') []]]"

text \<open>
  A stand-in for the XML parser on four texts: three documents, and any other text
  taken as one the parser rejects (it is used at \<open>not xml\<close> only).
\<close>

definition sample_fromstring :: xml_parser where
  "sample_fromstring xml_data =
     (if xml_data = xml_two_records then Inr two_records
      else if xml_data = ''<PubmedArticle/>'' then Inr (Element ''PubmedArticle'' None [])
      else if xml_data = ''<PubmedArticleSet/>'' then Inr (Element ''PubmedArticleSet'' None [])
      else Inl ''syntax error: line 1, column 0'')"

definition row_of_id :: "string \<Rightarrow> paper" where
  "row_of_id pmid =
     [(''PubmedID'', pmid), (''Title'', ''Unknown''), (''Publication Date'', ''''),
      (''Non-academic Author(s)'', ''None''), (''Company Affiliation(s)'', ''None''),
      (''Corresponding Author Email'', ''None'')]"

definition sample_response :: "nat \<Rightarrow> string \<Rightarrow> string \<Rightarrow> string + json \<Rightarrow> response" where
  "sample_response status why body decoded =
     \<lparr>status_code = status, reason = why, url = PUBMED_BASE_URL, response_text = body,
      response_json = decoded\<rparr>"

text \<open>An error response has an empty body, which does not decode.\<close>

definition error_response :: "nat \<Rightarrow> string \<Rightarrow> response" where
  "error_response status why =
     sample_response status why [] (Inl ''Expecting value: line 1 column 1 (char 0)'')"

definition ids_json :: json where
  "ids_json =
     JObject [(''esearchresult'',
               JObject [(''count'', JString ''2''), (''idlist'', JArray [JString ''1'', JString ''2''])])]"

text \<open>A network that is down: a connection error, then status 500, then status 503.\<close>

definition net_down :: network where
  "net_down n u params =
     (if n = 0 then Raises (RequestException ''Connection refused'')
      else if n = 1 then Returns (error_response 500 ''Internal Server Error'')
      else Returns (error_response 503 ''Service Unavailable''))"





text \<open>A network that answers every call with status 200 and a complete body.\<close>

definition net_ok :: network where
  "net_ok n u params = Returns (sample_response 200 ''OK'' xml_two_records (Inr ids_json))"

section \<open>Strings and dicts\<close>

lemma py_in_sublist: "py_in k s \<longleftrightarrow> sublist k s"
  by (induction s) (auto simp: sublist_Cons_right)

lemma keys_update_present:
  "map fst al = ks \<Longrightarrow> k \<in> set ks \<Longrightarrow> map fst (AList.update k v al) = ks"
  by (auto simp: update_keys)

lemma filter_by_index:
  "filter Q xs = map (\<lambda>i. xs ! i) (filter (\<lambda>i. Q (xs ! i)) [0..<length xs])"
proof -
  have "filter Q xs = filter Q (map (\<lambda>i. xs ! i) [0..<length xs])"
    by (simp add: map_nth)
  also have "\<dots> = map (\<lambda>i. xs ! i) (filter (Q \<circ> (\<lambda>i. xs ! i)) [0..<length xs])"
    by (rule filter_map)
  finally show ?thesis by (simp add: comp_def)
qed

section \<open>The author loops\<close>

lemma foldl_filter_step:
  "foldl filter_step acc ps =
     acc @ map (\<lambda>(n, a). \<lparr>name = n, company = a\<rparr>) (filter (\<lambda>(n, a). non_academic a) ps)"
  by (induction ps arbitrary: acc)
     (auto simp: filter_step_def list_ex_iff py_in_sublist non_academic_def)

lemma filter_non_academic_authors_map:
  "filter_non_academic_authors (map f xs) (map g xs) =
     map (\<lambda>x. \<lparr>name = f x, company = g x\<rparr>) (filter (\<lambda>x. non_academic (g x)) xs)"
  by (induction xs rule: rev_induct)
     (simp_all add: filter_non_academic_authors_def zip_map_map filter_step_def list_ex_iff
        py_in_sublist non_academic_def)

lemma foldl_author_step:
  "foldl author_step (p, ns, fs) xs =
     (foldl email_step p (map author_affiliation xs), ns @ map author_name xs, fs @ map author_affiliation xs)"
  by (induction xs arbitrary: p ns fs) (simp_all add: author_step_def email_step_def Let_def)

lemma map_of_email_fold:
  "map_of (foldl email_step p affs) =
     (case List.map_filter re_search affs of
        [] \<Rightarrow> map_of p
      | m # ms \<Rightarrow> (map_of p)(''Corresponding Author Email'' \<mapsto> last (m # ms)))"
proof (induction affs arbitrary: p)
  case Nil
  show ?case by simp
next
  case (Cons a affs)
  show ?case
  proof (cases "re_search a")
    case None
    then have "email_step p a = p" by (simp add: email_step_def)
    then show ?thesis using None by (simp add: Cons.IH)
  next
    case (Some e)
    then have s: "email_step p a = AList.update ''Corresponding Author Email'' e p"
      by (simp add: email_step_def)
    show ?thesis
      by (cases "List.map_filter re_search affs") (simp_all add: s Some Cons.IH update_conv')
  qed
qed

lemma keys_email_step:
  "''Corresponding Author Email'' \<in> fst ` set p \<Longrightarrow> map fst (email_step p a) = map fst p"
  by (simp add: email_step_def update_keys split: option.splits)

lemma keys_email_fold:
  "''Corresponding Author Email'' \<in> fst ` set p \<Longrightarrow> map fst (foldl email_step p affs) = map fst p"
proof (induction affs arbitrary: p)
  case Nil
  show ?case by simp
next
  case (Cons a affs)
  have k: "map fst (email_step p a) = map fst p"
    using Cons.prems by (rule keys_email_step)
  then have "''Corresponding Author Email'' \<in> fst ` set (email_step p a)"
    using Cons.prems by (metis list.set_map)
  then show ?case using Cons.IH [of "email_step p a"] k by simp
qed

section \<open>The row of one article\<close>

lemma parse_article_unfold:
  "parse_article article =
     (let paper2 = foldl email_step (date_paper article) (map author_affiliation (findall article [Descendant ''Author'']));
          non_academic_authors =
            filter_non_academic_authors (map author_name (findall article [Descendant ''Author'']))
              (map author_affiliation (findall article [Descendant ''Author'']))
      in if non_academic_authors \<noteq> []
         then AList.update ''Company Affiliation(s)'' (join ''; '' (map company non_academic_authors))
                (AList.update ''Non-academic Author(s)'' (join ''; '' (map name non_academic_authors)) paper2)
         else paper2)"
  by (simp add: parse_article_def date_paper_def Let_def foldl_author_step)

lemma keys_date_paper: "map fst (date_paper article) = fieldnames"
  by (simp add: date_paper_def Let_def fieldnames_def)

lemma date_of_date_paper:
  "map_of (date_paper article) ''Publication Date'' =
     Some (let day = findtext article [Descendant ''PubDate'', Child ''Day''] '''';
               month = findtext article [Descendant ''PubDate'', Child ''Month''] '''';
               year = findtext article [Descendant ''PubDate'', Child ''Year''] ''''
           in if day \<noteq> [] \<and> month \<noteq> [] \<and> year \<noteq> [] then year @ ''/'' @ month @ ''/'' @ day
              else if year \<noteq> [] then year else [])"
  by (simp add: date_paper_def Let_def)

lemma defaults_of_date_paper:
  "map_of (date_paper article) ''Non-academic Author(s)'' = Some ''None''"
  "map_of (date_paper article) ''Company Affiliation(s)'' = Some ''None''"
  "map_of (date_paper article) ''Corresponding Author Email'' = Some ''None''"
  by (simp_all add: date_paper_def Let_def)

lemma keys_parse_article: "map fst (parse_article article) = fieldnames"
proof -
  let ?p2 = "foldl email_step (date_paper article) (map author_affiliation (findall article [Descendant ''Author'']))"
  have "''Corresponding Author Email'' \<in> fst ` set (date_paper article)"
    by (simp add: date_paper_def Let_def)
  then have k2: "map fst ?p2 = fieldnames"
    by (simp add: keys_email_fold keys_date_paper)
  have k3: "map fst (AList.update ''Non-academic Author(s)'' v ?p2) = fieldnames" for v
    using k2 by (rule keys_update_present) (simp add: fieldnames_def)
  have k4: "map fst (AList.update ''Company Affiliation(s)'' w (AList.update ''Non-academic Author(s)'' v ?p2)) = fieldnames" for v w
    using k3 by (rule keys_update_present) (simp add: fieldnames_def)
  show ?thesis
  proof (cases "filter_non_academic_authors (map author_name (findall article [Descendant ''Author'']))
              (map author_affiliation (findall article [Descendant ''Author''])) = []")
    case True
    then show ?thesis by (simp add: parse_article_unfold Let_def k2)
  next
    case False
    then show ?thesis by (simp add: parse_article_unfold Let_def k4)
  qed
qed

lemma flagged_fields:
  fixes article :: element
  defines "authors \<equiv> findall article [Descendant ''Author'']"
  defines "flagged \<equiv> filter (\<lambda>a. non_academic (author_affiliation a)) authors"
  shows "map_of (parse_article article) ''Non-academic Author(s)'' =
           Some (if flagged = [] then ''None'' else join ''; '' (map author_name flagged))"
    and "map_of (parse_article article) ''Company Affiliation(s)'' =
           Some (if flagged = [] then ''None'' else join ''; '' (map author_affiliation flagged))"
  by (simp_all add: authors_def flagged_def parse_article_unfold Let_def update_conv'
        map_of_email_fold defaults_of_date_paper filter_non_academic_authors_map comp_def
        split: list.splits)

section \<open>The rows of a document\<close>

lemma foldl_append_rows:
  "foldl (\<lambda>papers article. papers @ [f article]) acc xs = acc @ map f xs"
  by (induction xs arbitrary: acc) simp_all

lemma findall_descendant:
  "findall root [Descendant t] = filter (\<lambda>e. elem_tag e = t) (concat (map iter (elem_children root)))"
  by (simp add: findall_def)

lemma record_elements_below:
  "concat (map record_elements cs) =
     filter (\<lambda>e. elem_tag e = ''PubmedArticle'') (concat (map iter cs))"
  by (induction cs) (simp_all add: record_elements_def)

lemma parse_paper_details_rows:
  "fromstring xml_data = Inr root \<Longrightarrow>
   parse_paper_details fromstring xml_data =
     Inr (map parse_article (concat (map record_elements (elem_children root))))"
  by (simp add: parse_paper_details_def foldl_append_rows findall_descendant record_elements_below)

section \<open>Writing the rows\<close>

lemma values_in_key_order:
  "distinct (map fst p) \<Longrightarrow>
   map (\<lambda>key. case map_of p key of None \<Rightarrow> [] | Some v \<Rightarrow> v) (map fst p) = map snd p"
proof (induction p)
  case Nil
  show ?case by simp
next
  case (Cons kv p)
  obtain k v where kv: "kv = (k, v)" by (cases kv)
  have "map (\<lambda>key. case map_of (kv # p) key of None \<Rightarrow> [] | Some v \<Rightarrow> v) (map fst p)
        = map (\<lambda>key. case map_of p key of None \<Rightarrow> [] | Some v \<Rightarrow> v) (map fst p)"
    using Cons.prems kv by (intro map_cong) auto
  then show ?case using Cons kv by simp
qed

lemma dict_to_list_complete:
  "map fst p = fieldnames \<Longrightarrow> dict_to_list fieldnames p = Inr (map snd p)"
proof -
  assume k: "map fst p = fieldnames"
  have d: "distinct (map fst p)" unfolding k by (simp add: fieldnames_def)
  have "filter (\<lambda>key. key \<notin> set fieldnames) (map fst p) = []"
    unfolding k by simp
  then show ?thesis
    using values_in_key_order [OF d] by (simp add: dict_to_list_def Let_def k [symmetric])
qed

lemma writerows_complete:
  "\<forall>p \<in> set papers. map fst p = fieldnames \<Longrightarrow>
   writerows fieldnames papers written = (None, written @ map (map snd) papers)"
  by (induction papers arbitrary: written) (simp_all add: dict_to_list_complete)

lemma record_elements_root:
  "record_elements (Element t x cs) =
     (if t = ''PubmedArticle'' then [Element t x cs] else []) @ concat (map record_elements cs)"
  by (simp add: record_elements_def record_elements_below)

lemma no_record_elements_below:
  "record_elements root = [] \<Longrightarrow> concat (map record_elements (elem_children root)) = []"
  by (cases root) (simp add: record_elements_root split: if_splits)

lemmas xml_eval =
  findall_def findtext_def findtext_opt_def py_or_def author_name_def author_affiliation_def
  sample_author_def

lemmas regex_eval = match_here_def email_char_def is_word_def

section \<open>The shape of a match\<close>

lemma match_here_shape:
  assumes "match_here s = Some m"
  shows "\<exists>l d post. s = l @ ''@'' @ d @ post \<and> m = l @ ''@'' @ d \<and> l \<noteq> [] \<and> d \<noteq> []
           \<and> (\<forall>c \<in> set (l @ d). email_char c)"
proof -
  let ?l = "takeWhile email_char s"
  from assms obtain rest where r: "dropWhile email_char s = CHR ''@'' # rest"
    and l: "?l \<noteq> []" and d: "takeWhile email_char rest \<noteq> []"
    and m: "m = ?l @ ''@'' @ takeWhile email_char rest"
    by (auto simp: match_here_def Let_def split: if_splits list.splits)
  have "s = ?l @ dropWhile email_char s" by simp
  also have "\<dots> = ?l @ ''@'' @ takeWhile email_char rest @ dropWhile email_char rest"
    by (simp add: r)
  finally have s: "s = ?l @ ''@'' @ takeWhile email_char rest @ dropWhile email_char rest" .
  have "\<forall>c \<in> set (?l @ takeWhile email_char rest). email_char c"
    by (auto dest: set_takeWhileD)
  then show ?thesis using s l d m by blast
qed

lemma re_search_shape:
  "re_search s = Some m \<Longrightarrow>
   \<exists>pre l d post. s = pre @ l @ ''@'' @ d @ post \<and> m = l @ ''@'' @ d \<and> l \<noteq> [] \<and> d \<noteq> []
     \<and> (\<forall>c \<in> set (l @ d). email_char c)"
proof (induction s)
  case Nil
  then show ?case by simp
next
  case (Cons c cs)
  show ?case
  proof (cases "match_here (c # cs)")
    case (Some m')
    then have "m' = m" using Cons.prems by simp
    then obtain l d post where "c # cs = [] @ l @ ''@'' @ d @ post" "m = l @ ''@'' @ d"
        "l \<noteq> []" "d \<noteq> []" "\<forall>c \<in> set (l @ d). email_char c"
      using match_here_shape [OF Some] by auto
    then show ?thesis by blast
  next
    case None
    then have "re_search cs = Some m" using Cons.prems by simp
    then obtain pre l d post where "cs = pre @ l @ ''@'' @ d @ post" "m = l @ ''@'' @ d"
        "l \<noteq> []" "d \<noteq> []" "\<forall>c \<in> set (l @ d). email_char c"
      using Cons.IH by blast
    then have "c # cs = (c # pre) @ l @ ''@'' @ d @ post" by simp
    then show ?thesis
      using \<open>m = l @ ''@'' @ d\<close> \<open>l \<noteq> []\<close> \<open>d \<noteq> []\<close> \<open>\<forall>c \<in> set (l @ d). email_char c\<close>
      by blast
  qed
qed

section \<open>The claims about extraction\<close>

text \<open>
  C1, as amended. The \<open>Publication Date\<close> of a row is \<open>YEAR/MONTH/DAY\<close> when the year,
  month and day looked up in the record are all non-empty; otherwise it is the year
  alone whenever the year is non-empty, whether or not a month or a day is present;
  otherwise it is the empty string. A record with a year and a month and no day has
  the year as its date.
\<close>

theorem publication_date_policy:
  "map_of (parse_article article) ''Publication Date'' =
     Some (let day = findtext article [Descendant ''PubDate'', Child ''Day''] '''';
               month = findtext article [Descendant ''PubDate'', Child ''Month''] '''';
               year = findtext article [Descendant ''PubDate'', Child ''Year''] ''''
           in if day \<noteq> [] \<and> month \<noteq> [] \<and> year \<noteq> [] then year @ ''/'' @ month @ ''/'' @ day
              else if year \<noteq> [] then year else [])"
proof -
  have "map_of (parse_article article) ''Publication Date'' = map_of (date_paper article) ''Publication Date''"
    by (simp add: parse_article_unfold Let_def update_conv' map_of_email_fold split: list.splits)
  then show ?thesis by (simp only: date_of_date_paper)
qed

theorem publication_date_policy_witness:
  "map_of (parse_article article_full) ''Publication Date'' = Some ''2021/Jan/15''
   \<and> map_of (parse_article article_year_month) ''Publication Date'' = Some ''2020''"
  using publication_date_policy [of article_full] publication_date_policy [of article_year_month]
  by (simp add: xml_eval article_full_def article_year_month_def)

text \<open>
  C1 as stated fails: the sample record has the year 2020 and the month May and no day,
  and its date is \<open>2020\<close>, not the empty string.
\<close>

theorem year_and_month_counterexample:
  "findtext article_year_month [Descendant ''PubDate'', Child ''Year''] '''' = ''2020''
   \<and> findtext article_year_month [Descendant ''PubDate'', Child ''Month''] '''' = ''May''
   \<and> findtext article_year_month [Descendant ''PubDate'', Child ''Day''] '''' = ''''
   \<and> map_of (parse_article article_year_month) ''Publication Date'' = Some ''2020''
   \<and> map_of (parse_article article_year_month) ''Publication Date'' \<noteq> Some ''''"
  by (simp add: parse_article_unfold Let_def date_paper_def xml_eval article_year_month_def
        filter_non_academic_authors_def)

text \<open>
  C2. The authors flagged are those whose affiliation has one of the thirteen keywords as
  a contiguous substring, compared character by character (\<open>sublist\<close>: no word boundary,
  no case folding): the result lists, in order, exactly the pairs of the zipped inputs
  whose affiliation has a keyword, each with its affiliation unchanged as the company.
\<close>

theorem non_academic_iff_keyword_substring:
  "filter_non_academic_authors authors affiliations =
     map (\<lambda>(n, a). \<lparr>name = n, company = a\<rparr>)
       (filter (\<lambda>(n, a). \<exists>k \<in> {''Inc'', ''Ltd'', ''Corp'', ''Corporation'', ''Pharma'', ''Biotech'',
                                 ''Biopharma'', ''HealthTech'', ''Lab'', ''Research Institute'',
                                 ''Company'', ''Therapeutics'', ''Healthcare''}. sublist k a)
          (zip authors affiliations))"
proof -
  have "non_academic = (\<lambda>a. \<exists>k \<in> {''Inc'', ''Ltd'', ''Corp'', ''Corporation'', ''Pharma'', ''Biotech'',
                                 ''Biopharma'', ''HealthTech'', ''Lab'', ''Research Institute'',
                                 ''Company'', ''Therapeutics'', ''Healthcare''}. sublist k a)"
    by (simp add: fun_eq_iff non_academic_def company_keywords_def)
  then show ?thesis
    using foldl_filter_step [of "[]" "zip authors affiliations"]
    by (simp add: filter_non_academic_authors_def)
qed

theorem non_academic_iff_keyword_substring_witness:
  "filter_non_academic_authors
     [''Doe, Jane'', ''Roe, Rick'', ''Minos, King'']
     [''Acme Pharma Inc, Boston'', ''Dept. of Biology, Stanford University'', ''Labyrinth''] =
   [\<lparr>name = ''Doe, Jane'', company = ''Acme Pharma Inc, Boston''\<rparr>,
    \<lparr>name = ''Minos, King'', company = ''Labyrinth''\<rparr>]"
  using non_academic_iff_keyword_substring
    [of "[''Doe, Jane'', ''Roe, Rick'', ''Minos, King'']"
        "[''Acme Pharma Inc, Boston'', ''Dept. of Biology, Stanford University'', ''Labyrinth'']"]
  by (simp add: sublist_code(3))

text \<open>
  C3. The \<open>Corresponding Author Email\<close> of a row is the match of the pattern in the
  affiliation of the last author, in document order, whose affiliation has a match, and
  it is \<open>None\<close> when no author's affiliation has one. A match is a part of the
  affiliation made of one \<open>@\<close> with a non-empty run of word, dot and hyphen characters
  on each side, a word character being one of Python's class \<open>\w\<close>, which has the
  letters and digits above code point 127 too.
\<close>

theorem corresponding_email_last_match:
  "map_of (parse_article article) ''Corresponding Author Email'' =
     Some (case List.map_filter re_search (map author_affiliation (findall article [Descendant ''Author''])) of
             [] \<Rightarrow> ''None''
           | m # ms \<Rightarrow> last (m # ms))
   \<and> (\<forall>affiliation m. re_search affiliation = Some m \<longrightarrow>
         (\<exists>pre l d post. affiliation = pre @ l @ ''@'' @ d @ post \<and> m = l @ ''@'' @ d
            \<and> l \<noteq> [] \<and> d \<noteq> [] \<and> (\<forall>c \<in> set (l @ d). email_char c)))"
proof (intro conjI allI impI)
  show "map_of (parse_article article) ''Corresponding Author Email'' =
     Some (case List.map_filter re_search (map author_affiliation (findall article [Descendant ''Author''])) of
             [] \<Rightarrow> ''None''
           | m # ms \<Rightarrow> last (m # ms))"
    by (simp add: parse_article_unfold Let_def update_conv' map_of_email_fold defaults_of_date_paper
          split: list.splits)
next
  fix affiliation m
  assume "re_search affiliation = Some m"
  then show "\<exists>pre l d post. affiliation = pre @ l @ ''@'' @ d @ post \<and> m = l @ ''@'' @ d
            \<and> l \<noteq> [] \<and> d \<noteq> [] \<and> (\<forall>c \<in> set (l @ d). email_char c)"
    by (rule re_search_shape)
qed

theorem corresponding_email_last_match_witness:
  "map_of (parse_article article_full) ''Corresponding Author Email'' = Some ''rick@stanford.edu''
   \<and> map_of (parse_article article_year_month) ''Corresponding Author Email'' = Some ''None''
   \<and> map_of (parse_article article_two_emails) ''Corresponding Author Email'' =
       Some (CHR 0xE9 # ''@x.org'')
   \<and> re_search ''BioLab Corp, contact: jane.doe@acme.com'' = Some ''jane.doe@acme.com''
   \<and> (\<exists>pre l d post. ''BioLab Corp, contact: jane.doe@acme.com'' = pre @ l @ ''@'' @ d @ post
         \<and> ''jane.doe@acme.com'' = l @ ''@'' @ d \<and> l \<noteq> [] \<and> d \<noteq> [])"
proof -
  have s: "re_search ''BioLab Corp, contact: jane.doe@acme.com'' = Some ''jane.doe@acme.com''"
    by (simp add: regex_eval)
  have "\<exists>pre l d post. ''BioLab Corp, contact: jane.doe@acme.com'' = pre @ l @ ''@'' @ d @ post
         \<and> ''jane.doe@acme.com'' = l @ ''@'' @ d \<and> l \<noteq> [] \<and> d \<noteq> []
         \<and> (\<forall>c \<in> set (l @ d). email_char c)"
    using corresponding_email_last_match [of article_full, THEN conjunct2, rule_format, OF s] .
  then have e: "\<exists>pre l d post. ''BioLab Corp, contact: jane.doe@acme.com'' = pre @ l @ ''@'' @ d @ post
         \<and> ''jane.doe@acme.com'' = l @ ''@'' @ d \<and> l \<noteq> [] \<and> d \<noteq> []"
    by blast
  have f: "map_of (parse_article article_full) ''Corresponding Author Email'' = Some ''rick@stanford.edu''
   \<and> map_of (parse_article article_year_month) ''Corresponding Author Email'' = Some ''None''"
    using corresponding_email_last_match [of article_full, THEN conjunct1]
      corresponding_email_last_match [of article_year_month, THEN conjunct1]
    by (simp add: xml_eval regex_eval article_full_def article_year_month_def)
  have t: "map_of (parse_article article_two_emails) ''Corresponding Author Email'' =
       Some (CHR 0xE9 # ''@x.org'')"
    using corresponding_email_last_match [of article_two_emails, THEN conjunct1]
    by (simp add: xml_eval regex_eval article_two_emails_def)
  show ?thesis using s e f t by blast
qed

text \<open>
  C4, as amended. For a document that parses, extraction returns one row for each
  \<open>PubmedArticle\<close> element below the root element, in document order; the root element
  itself is never a record. With \<open>N\<close> such elements there are \<open>N\<close> rows.
\<close>

theorem one_row_per_record_below_root:
  assumes "fromstring xml_data = Inr root"
  shows "parse_paper_details fromstring xml_data =
           Inr (map parse_article (concat (map record_elements (elem_children root))))
         \<and> (\<exists>rows. parse_paper_details fromstring xml_data = Inr rows
                \<and> length rows = length (concat (map record_elements (elem_children root))))"
  using assms by (simp add: parse_paper_details_rows)

theorem one_row_per_record_below_root_witness:
  "sample_fromstring xml_two_records = Inr two_records
   \<and> length (concat (map record_elements (elem_children two_records))) = 2
   \<and> parse_paper_details sample_fromstring xml_two_records = Inr [row_of_id ''1'', row_of_id ''2'']"
proof -
  have p: "sample_fromstring xml_two_records = Inr two_records"
    by (simp add: sample_fromstring_def)
  have r: "concat (map record_elements (elem_children two_records)) =
             [Element ''PubmedArticle'' None [Element ''PMID'' (Some ''1'') []],
              Element ''PubmedArticle'' None [Element ''PMID'' (Some ''2'') []]]"
    by (simp add: two_records_def record_elements_def)
  have a: "parse_article (Element ''PubmedArticle'' None [Element ''PMID'' (Some i) []]) =
             row_of_id (if i = [] then ''Unknown'' else i)" for i
    by (simp add: parse_article_unfold Let_def date_paper_def xml_eval
          filter_non_academic_authors_def row_of_id_def)
  show ?thesis
    using one_row_per_record_below_root [of sample_fromstring xml_two_records two_records] p
    by (simp add: r a)
qed

text \<open>
  C4 as stated fails: a document whose root element is the one \<open>PubmedArticle\<close> element
  has one record element, and extraction returns no row for it.
\<close>

theorem root_record_counterexample:
  "sample_fromstring ''<PubmedArticle/>'' = Inr (Element ''PubmedArticle'' None [])
   \<and> length (record_elements (Element ''PubmedArticle'' None [])) = 1
   \<and> parse_paper_details sample_fromstring ''<PubmedArticle/>'' = Inr []"
  by (simp add: sample_fromstring_def xml_two_records_def record_elements_def
        parse_paper_details_def findall_def)

text \<open>
  C5. Extraction fails exactly when the text does not parse, and then with a
  \<open>ValueError\<close> that carries the parser's message; a document that parses gives rows,
  and none when it has no record element.
\<close>

theorem extraction_fails_only_on_malformed_xml:
  "((\<exists>e. parse_paper_details fromstring xml_data = Inl e) \<longleftrightarrow> (\<exists>msg. fromstring xml_data = Inl msg))
   \<and> (\<forall>msg. fromstring xml_data = Inl msg \<longrightarrow>
          parse_paper_details fromstring xml_data = Inl (ValueError (''Failed to parse XML data: '' @ msg)))
   \<and> (\<forall>root. fromstring xml_data = Inr root \<and> record_elements root = [] \<longrightarrow>
          parse_paper_details fromstring xml_data = Inr [])"
proof (intro conjI allI impI)
  show "(\<exists>e. parse_paper_details fromstring xml_data = Inl e) \<longleftrightarrow> (\<exists>msg. fromstring xml_data = Inl msg)"
    by (cases "fromstring xml_data") (simp_all add: parse_paper_details_def)
next
  fix msg
  assume "fromstring xml_data = Inl msg"
  then show "parse_paper_details fromstring xml_data = Inl (ValueError (''Failed to parse XML data: '' @ msg))"
    by (simp add: parse_paper_details_def)
next
  fix root
  assume "fromstring xml_data = Inr root \<and> record_elements root = []"
  then show "parse_paper_details fromstring xml_data = Inr []"
    by (simp add: parse_paper_details_rows no_record_elements_below)
qed

theorem extraction_fails_only_on_malformed_xml_witness:
  "parse_paper_details sample_fromstring ''not xml'' =
     Inl (ValueError ''Failed to parse XML data: syntax error: line 1, column 0'')
   \<and> record_elements (Element ''PubmedArticleSet'' None []) = []
   \<and> parse_paper_details sample_fromstring ''<PubmedArticleSet/>'' = Inr []"
proof -
  have m: "sample_fromstring ''not xml'' = Inl ''syntax error: line 1, column 0''"
    by (simp add: sample_fromstring_def xml_two_records_def)
  have w: "sample_fromstring ''<PubmedArticleSet/>'' = Inr (Element ''PubmedArticleSet'' None [])"
    by (simp add: sample_fromstring_def xml_two_records_def)
  have e: "record_elements (Element ''PubmedArticleSet'' None []) = []"
    by (simp add: record_elements_def)
  from extraction_fails_only_on_malformed_xml [of sample_fromstring "''not xml''"] m
  have 1: "parse_paper_details sample_fromstring ''not xml'' =
     Inl (ValueError (''Failed to parse XML data: '' @ ''syntax error: line 1, column 0''))"
    by blast
  from extraction_fails_only_on_malformed_xml [of sample_fromstring "''<PubmedArticleSet/>''"] w e
  have 2: "parse_paper_details sample_fromstring ''<PubmedArticleSet/>'' = Inr []"
    by blast
  show ?thesis using 1 2 e by simp
qed

text \<open>
  C9. With the authors of a record numbered in document order, let the flagged indices
  be those of the authors whose affiliation has a keyword, in increasing order. When
  there is none, \<open>Non-academic Author(s)\<close> and \<open>Company Affiliation(s)\<close> are both
  \<open>None\<close>. Otherwise the first is the names and the second the affiliations of the
  authors at the flagged indices, each joined with \<open>; \<close>: two lists of the same length,
  the \<open>i\<close>-th company being the affiliation of the \<open>i\<close>-th flagged author.
\<close>

theorem flagged_authors_and_companies_parallel:
  "(let authors = findall article [Descendant ''Author''];
        flagged = filter (\<lambda>i. non_academic (author_affiliation (authors ! i))) [0..<length authors]
    in map_of (parse_article article) ''Non-academic Author(s)'' =
         Some (if flagged = [] then ''None''
               else join ''; '' (map (\<lambda>i. author_name (authors ! i)) flagged))
       \<and> map_of (parse_article article) ''Company Affiliation(s)'' =
         Some (if flagged = [] then ''None''
               else join ''; '' (map (\<lambda>i. author_affiliation (authors ! i)) flagged)))"
proof -
  let ?authors = "findall article [Descendant ''Author'']"
  let ?idx = "filter (\<lambda>i. non_academic (author_affiliation (?authors ! i))) [0..<length ?authors]"
  have f: "filter (\<lambda>a. non_academic (author_affiliation a)) ?authors = map (\<lambda>i. ?authors ! i) ?idx"
    by (rule filter_by_index)
  show ?thesis
    unfolding Let_def flagged_fields f by (simp add: comp_def)
qed

theorem flagged_authors_and_companies_parallel_witness:
  "map_of (parse_article article_full) ''Non-academic Author(s)'' = Some ''Doe, Jane; Minos, King''
   \<and> map_of (parse_article article_full) ''Company Affiliation(s)'' =
       Some ''Acme Pharma Inc, Boston, jane.doe@acme.com; The Labyrinth, Knossos''
   \<and> map_of (parse_article article_year_month) ''Non-academic Author(s)'' = Some ''None''
   \<and> map_of (parse_article article_year_month) ''Company Affiliation(s)'' = Some ''None''"
proof -
  have authors: "findall article_full [Descendant ''Author''] =
      [sample_author ''Doe'' ''Jane'' ''Acme Pharma Inc, Boston, jane.doe@acme.com'',
       sample_author ''Roe'' ''Rick'' ''Dept. of Biology, Stanford University, rick@stanford.edu'',
       sample_author ''Minos'' ''King'' ''The Labyrinth, Knossos'']"
    by (simp add: findall_def article_full_def sample_author_def)
  have none: "findall article_year_month [Descendant ''Author''] = []"
    by (simp add: findall_def article_year_month_def)
  have aff: "author_affiliation (sample_author l f a) = a" for l f a
    by (simp add: xml_eval)
  have nm: "author_name (sample_author l f a) = l @ '', '' @ f" for l f a
    by (simp add: xml_eval)
  have k1: "non_academic ''Acme Pharma Inc, Boston, jane.doe@acme.com''"
    unfolding non_academic_def company_keywords_def
    by (rule bexI [of _ "''Inc''"]) (simp_all add: sublist_code(3))
  have k2: "\<not> non_academic ''Dept. of Biology, Stanford University, rick@stanford.edu''"
    by (simp add: non_academic_def company_keywords_def sublist_code(3))
  have k3: "non_academic ''The Labyrinth, Knossos''"
    unfolding non_academic_def company_keywords_def
    by (rule bexI [of _ "''Lab''"]) (simp_all add: sublist_code(3))
  have idx: "[0..<3] = [0, 1, 2]"
    by (simp add: upt_rec)
  show ?thesis
    using flagged_authors_and_companies_parallel [of article_full]
      flagged_authors_and_companies_parallel [of article_year_month]
    by (simp add: Let_def authors none aff nm k1 k2 k3 idx)
qed

text \<open>
  C10. Every row of an extraction has exactly the six keys of the header, each once and
  in the header's order, so writing the rows raises nothing and the file holds the
  header followed, for each row, by the row's six values.
\<close>

theorem rows_fill_the_six_columns:
  assumes "parse_paper_details fromstring xml_data = Inr papers"
  shows "(\<forall>p \<in> set papers.
            map fst p = [''PubmedID'', ''Title'', ''Publication Date'', ''Non-academic Author(s)'',
                         ''Company Affiliation(s)'', ''Corresponding Author Email''])
         \<and> save_to_csv filename papers files =
             (None, files(filename \<mapsto>
                [''PubmedID'', ''Title'', ''Publication Date'', ''Non-academic Author(s)'',
                 ''Company Affiliation(s)'', ''Corresponding Author Email''] # map (map snd) papers))"
proof -
  obtain root where "fromstring xml_data = Inr root"
    using assms by (cases "fromstring xml_data") (simp_all add: parse_paper_details_def)
  then have "papers = map parse_article (concat (map record_elements (elem_children root)))"
    using assms by (simp add: parse_paper_details_rows)
  then have k: "\<forall>p \<in> set papers. map fst p = fieldnames"
    by (auto simp: keys_parse_article)
  then have "save_to_csv filename papers files = (None, files(filename \<mapsto> fieldnames # map (map snd) papers))"
    by (simp add: save_to_csv_def writerows_complete)
  then show ?thesis using k by (simp add: fieldnames_def)
qed

theorem rows_fill_the_six_columns_witness:
  "parse_paper_details sample_fromstring xml_two_records = Inr [row_of_id ''1'', row_of_id ''2'']
   \<and> map fst (row_of_id ''1'') = fieldnames \<and> map fst (row_of_id ''2'') = fieldnames
   \<and> save_to_csv ''out.csv'' [row_of_id ''1'', row_of_id ''2''] Map.empty =
       (None, [''out.csv'' \<mapsto>
          [fieldnames,
           [''1'', ''Unknown'', '''', ''None'', ''None'', ''None''],
           [''2'', ''Unknown'', '''', ''None'', ''None'', ''None'']]])"
proof -
  have a: "parse_article (Element ''PubmedArticle'' None [Element ''PMID'' (Some i) []]) =
             row_of_id (if i = [] then ''Unknown'' else i)" for i
    by (simp add: parse_article_unfold Let_def date_paper_def xml_eval
          filter_non_academic_authors_def row_of_id_def)
  have p: "parse_paper_details sample_fromstring xml_two_records = Inr [row_of_id ''1'', row_of_id ''2'']"
    by (simp add: parse_paper_details_def sample_fromstring_def two_records_def findall_def a)
  show ?thesis
    using rows_fill_the_six_columns [OF p, of "''out.csv''" Map.empty] p
    by (simp add: row_of_id_def fieldnames_def)
qed

section \<open>The retry loops\<close>

lemma strip_empty_iff: "strip query = [] \<longleftrightarrow> (\<forall>c \<in> set query. isspace c)"
proof
  assume "strip query = []"
  then have "dropWhile isspace (rev (dropWhile isspace query)) = []"
    by (simp add: strip_def)
  then have "\<forall>c \<in> set (dropWhile isspace query). isspace c"
    by simp
  then have "dropWhile isspace query = []"
    using hd_dropWhile [of isspace query] by (cases "dropWhile isspace query") auto
  then show "\<forall>c \<in> set query. isspace c"
    by simp
next
  assume "\<forall>c \<in> set query. isspace c"
  then have d: "dropWhile isspace query = []"
    by simp
  show "strip query = []"
    unfolding strip_def d by simp
qed


lemma raise_for_status_passes:
  "\<not> transport_failure (Returns resp) \<Longrightarrow> raise_for_status resp = None"
  by (auto simp: transport_failure_def raise_for_status_def)



lemma details_attempt_passes:
  "net c PUBMED_FETCH_URL (details_params pubmed_ids) = Returns resp \<Longrightarrow>
   \<not> transport_failure (Returns resp) \<Longrightarrow>
   details_attempt net fromstring pubmed_ids c = parse_paper_details fromstring (response_text resp)"
  by (simp add: details_attempt_def raise_for_status_passes)

lemma parse_paper_details_no_request_exception:
  "parse_paper_details fromstring xml_data \<noteq> Inl (RequestException e)"
  by (cases "fromstring xml_data") (simp_all add: parse_paper_details_def)











lemma fetch_ids_loop_exhausted:
  "ids_attempt net query c = Inl (RequestException e) \<Longrightarrow> \<not> a < 2 \<Longrightarrow>
   fetch_ids_loop net query (a # rest) c =
     (Inl (RuntimeError (''Failed to fetch PubMed IDs after 3 attempts: '' @ e)), Suc c)"
  by simp


lemma fetch_details_loop_first:
  "\<forall>e. details_attempt net fromstring pubmed_ids c \<noteq> Inl (RequestException e) \<Longrightarrow>
   fetch_details_loop net fromstring pubmed_ids (a # rest) c =
     (returned (details_attempt net fromstring pubmed_ids c), Suc c)"
  by (simp add: returned_def split: sum.splits exn.splits)


lemma fetch_details_loop_exhausted:
  "details_attempt net fromstring pubmed_ids c = Inl (RequestException e) \<Longrightarrow> \<not> a < 2 \<Longrightarrow>
   fetch_details_loop net fromstring pubmed_ids (a # rest) c =
     (Inl (RuntimeError (''Failed to fetch paper details after 3 attempts: '' @ e)), Suc c)"
  by simp








lemma str_nat_samples:
  "str_nat 500 = ''500''" "str_nat 502 = ''502''" "str_nat 503 = ''503''"
  by code_simp+

lemma sample_rows:
  "parse_paper_details sample_fromstring xml_two_records = Inr [row_of_id ''1'', row_of_id ''2'']"
proof -
  have a: "parse_article (Element ''PubmedArticle'' None [Element ''PMID'' (Some i) []]) =
             row_of_id (if i = [] then ''Unknown'' else i)" for i
    by (simp add: parse_article_unfold Let_def date_paper_def xml_eval
          filter_non_academic_authors_def row_of_id_def)
  show ?thesis
    by (simp add: parse_paper_details_def sample_fromstring_def two_records_def findall_def a)
qed



lemma isspace_code_points:
  "isspace c \<longleftrightarrow> (of_char c :: nat) \<in> {9, 10, 11, 12, 13, 28, 29, 30, 31, 32, 133, 160}"
  unfolding isspace_def Let_def by (simp only: insert_iff empty_iff) arith

lemmas net_eval =
  transport_failure_def failure_cause_def lookup_failure_def lookup_cause_def
  sample_response_def error_response_def str_nat_samples

section \<open>The claims about the two requests\<close>




text \<open>
  C7. For a query that is empty or consists of whitespace only, \<open>fetch_pubmed_ids\<close> raises
  the \<open>ValueError\<close> of the validation whatever the network is, and the number of calls
  made is unchanged: no call is made. The whitespace characters are those that
  \<open>str.strip\<close> removes: the code points 9 to 13, 28 to 32, 133 and 160.
\<close>

theorem blank_query_rejected_without_a_call:
  assumes "\<forall>c \<in> set query. (of_char c :: nat) \<in> {9, 10, 11, 12, 13, 28, 29, 30, 31, 32, 133, 160}"
  shows "fetch_pubmed_ids net query calls =
           (Inl (ValueError ''Query cannot be empty or whitespace.''), calls)"
proof -
  have "\<forall>c \<in> set query. isspace c"
    using assms by (simp only: isspace_code_points)
  then have "strip query = []"
    by (simp only: strip_empty_iff)
  then show ?thesis
    by (simp add: fetch_pubmed_ids_def)
qed

theorem blank_query_rejected_without_a_call_witness:
  "fetch_pubmed_ids net_ok [] 0 = (Inl (ValueError ''Query cannot be empty or whitespace.''), 0)
   \<and> fetch_pubmed_ids net_ok [CHR '' '', CHR 0x09, CHR 0x0A] 0 =
       (Inl (ValueError ''Query cannot be empty or whitespace.''), 0)
   \<and> fetch_pubmed_ids net_ok [CHR 0xA0, CHR 0x85] 0 =
       (Inl (ValueError ''Query cannot be empty or whitespace.''), 0)"
proof -
  have w: "\<forall>c \<in> set [CHR '' '', CHR 0x09, CHR 0x0A].
             (of_char c :: nat) \<in> {9, 10, 11, 12, 13, 28, 29, 30, 31, 32, 133, 160}"
    by simp
  have x: "\<forall>c \<in> set [CHR 0xA0, CHR 0x85].
             (of_char c :: nat) \<in> {9, 10, 11, 12, 13, 28, 29, 30, 31, 32, 133, 160}"
    by simp
  show ?thesis
    using blank_query_rejected_without_a_call [of "[]" net_ok 0]
      blank_query_rejected_without_a_call [OF w, of net_ok 0]
      blank_query_rejected_without_a_call [OF x, of net_ok 0]
    by simp
qed

text \<open>
  C8. For the empty list of identifiers \<open>fetch_paper_details\<close> returns the empty list and
  makes no call. For a list that is not empty, when the first call returns a response
  that passes the status check, the function ends with the extraction of that
  response's body after exactly one call.
\<close>

theorem fetch_calls_once_on_success:
  "fetch_paper_details net fromstring [] calls = (Inr (Some []), calls)
   \<and> (\<forall>resp. pubmed_ids \<noteq> []
          \<and> net calls PUBMED_FETCH_URL (details_params pubmed_ids) = Returns resp
          \<and> \<not> transport_failure (Returns resp) \<longrightarrow>
        fetch_paper_details net fromstring pubmed_ids calls =
          (returned (parse_paper_details fromstring (response_text resp)), calls + 1))"
proof (intro conjI allI impI)
  show "fetch_paper_details net fromstring [] calls = (Inr (Some []), calls)"
    by (simp add: fetch_paper_details_def)
next
  fix resp
  assume h: "pubmed_ids \<noteq> []
          \<and> net calls PUBMED_FETCH_URL (details_params pubmed_ids) = Returns resp
          \<and> \<not> transport_failure (Returns resp)"
  then have a: "details_attempt net fromstring pubmed_ids calls =
                  parse_paper_details fromstring (response_text resp)"
    by (simp add: details_attempt_passes)
  then have "\<forall>e. details_attempt net fromstring pubmed_ids calls \<noteq> Inl (RequestException e)"
    by (simp add: parse_paper_details_no_request_exception)
  then show "fetch_paper_details net fromstring pubmed_ids calls =
          (returned (parse_paper_details fromstring (response_text resp)), calls + 1)"
    using h a by (simp add: fetch_paper_details_def fetch_details_loop_first
          del: fetch_details_loop.simps)
qed

theorem fetch_calls_once_on_success_witness:
  "fetch_paper_details net_down sample_fromstring [] 0 = (Inr (Some []), 0)
   \<and> fetch_paper_details net_ok sample_fromstring [''1'', ''2''] 0 =
       (Inr (Some [row_of_id ''1'', row_of_id ''2'']), 1)"
proof -
  have r: "net_ok 0 PUBMED_FETCH_URL (details_params [''1'', ''2'']) =
             Returns (sample_response 200 ''OK'' xml_two_records (Inr ids_json))"
    by (simp add: net_ok_def)
  have p: "\<not> transport_failure (Returns (sample_response 200 ''OK'' xml_two_records (Inr ids_json)))"
    by (simp add: net_eval)
  have t: "response_text (sample_response 200 ''OK'' xml_two_records (Inr ids_json)) = xml_two_records"
    by (simp add: sample_response_def)
  show ?thesis
    using fetch_calls_once_on_success [of net_down sample_fromstring 0 "[''1'', ''2'']", THEN conjunct1]
      fetch_calls_once_on_success [of net_ok sample_fromstring 0 "[''1'', ''2'']", THEN conjunct2,
        rule_format, of "sample_response 200 ''OK'' xml_two_records (Inr ids_json)"]
      r p
    by (simp add: t sample_rows returned_def)
qed

end
